theory Spec2Isabelle
  imports Main "HOL-Library.Word"
begin

unbundle bit_operations_syntax

section \<open>The timer odometer driver (odo.c)\<close>

text \<open>
  The driver runs on the i.MX27 (ARM, 32 bit): \<^verbatim>\<open>int\<close>, \<^verbatim>\<open>unsigned int\<close> and
  \<^verbatim>\<open>unsigned long\<close> are 32-bit values, modelled as \<^typ>\<open>32 word\<close>;
  \<^verbatim>\<open>unsigned long long\<close> is \<^typ>\<open>64 word\<close>. Register offsets, bit positions and
  field widths are the non-negative constants of the macros and are natural numbers.
\<close>

subsection \<open>Constants (lines 36-55)\<close>

definition MEM_BASE :: "32 word" where
  "MEM_BASE = 0x10000000"

definition MEM_GPT_OFFSET :: "32 word list" where
  "MEM_GPT_OFFSET = [0x3000, 0x4000, 0x5000, 0x19000, 0x1A000, 0x1F000]"

definition GPT_TIN :: "int list" where
  "GPT_TIN = [79, 79, 79, 91, 89, 78]"

definition TCTL_REG :: nat where "TCTL_REG = 0x0"
definition TPRER_REG :: nat where "TPRER_REG = 0x4"
definition TCMP_REG :: nat where "TCMP_REG = 0x8"
definition TCN_REG :: nat where "TCN_REG = 0x10"
definition TSTAT_REG :: nat where "TSTAT_REG = 0x14"

text \<open>A field macro expands to two arguments: the position and the size of the field.\<close>

definition TCTL_TEN :: "nat \<times> nat" where "TCTL_TEN = (0, 1)"
definition TCTL_CLKSOURCE :: "nat \<times> nat" where "TCTL_CLKSOURCE = (1, 3)"
definition TCTL_COMP_EN :: "nat \<times> nat" where "TCTL_COMP_EN = (4, 1)"
definition TCTL_FRR :: "nat \<times> nat" where "TCTL_FRR = (8, 1)"
definition TCTL_CC :: "nat \<times> nat" where "TCTL_CC = (10, 1)"
definition TCMP_CMP :: "nat \<times> nat" where "TCMP_CMP = (0, 32)"
definition TPRER_PRESCALER :: "nat \<times> nat" where "TPRER_PRESCALER = (0, 10)"
definition TSTAT_COMP :: "32 word" where "TSTAT_COMP = 0x1"

definition EINVAL :: int where "EINVAL = 22"
definition ENOMEM :: int where "ENOMEM = 12"
definition ERANGE :: int where "ERANGE = 34"

subsection \<open>The driver's state and the register window\<close>

text \<open>
  Every access the driver makes to the device is recorded, in order, in \<open>iolog\<close>:
  a read with the value it returned, a write with the value written, and the settle
  delay of the reset.
\<close>

datatype io_event = IoRead nat "32 word" | IoWrite nat "32 word" | Msleep nat

text \<open>
  \<^verbatim>\<open>struct _odo\<close>. The field \<open>vmem\<close> stands for the mapped register window: the
  content of the register at each byte offset. The kobject pointer plays no part in the
  counter and is left out.
\<close>

record odo_state =
  gpt_base :: "32 word"
  vmem :: "nat \<Rightarrow> 32 word"
  counter_ms :: "32 word"
  counter_ls :: "32 word"
  nb_access :: "32 word"
  first_access :: "32 word"
  last_access :: "32 word"
  iolog :: "io_event list"

text \<open>
  What a register holds after a write. The status register is write-one-to-clear (a
  written 1 clears the flag, spec section 4.3); every other register holds the value
  written.
\<close>

definition gpt_latch :: "nat \<Rightarrow> 32 word \<Rightarrow> 32 word \<Rightarrow> 32 word" where
  "gpt_latch reg old v = (if reg = TSTAT_REG then old AND NOT v else v)"

definition ioread32 :: "nat \<Rightarrow> odo_state \<Rightarrow> 32 word \<times> odo_state" where
  "ioread32 reg st = (vmem st reg, st\<lparr>iolog := iolog st @ [IoRead reg (vmem st reg)]\<rparr>)"

definition iowrite32 :: "32 word \<Rightarrow> nat \<Rightarrow> odo_state \<Rightarrow> odo_state" where
  "iowrite32 v reg st =
     st\<lparr>vmem := (vmem st)(reg := gpt_latch reg (vmem st reg) v),
        iolog := iolog st @ [IoWrite reg v]\<rparr>"

definition msleep :: "nat \<Rightarrow> odo_state \<Rightarrow> odo_state" where
  "msleep ms st = st\<lparr>iolog := iolog st @ [Msleep ms]\<rparr>"

text \<open>
  What the hardware does between two accesses of the driver is not the driver's code:
  the environment presents a status and a count before a query.
\<close>

definition hw_present :: "32 word \<Rightarrow> 32 word \<Rightarrow> odo_state \<Rightarrow> odo_state" where
  "hw_present status count st = st\<lparr>vmem := (vmem st)(TSTAT_REG := status, TCN_REG := count)\<rparr>"

subsection \<open>Actions on the GPT (lines 75-135)\<close>

text \<open>
  The loop of \<^verbatim>\<open>odo_set_gpt_field\<close>:
  \<^verbatim>\<open>for(bit = pos; bit < pos + sz; ++bit) v &= ~(1 << bit);\<close>
  with \<open>b\<close> for \<^verbatim>\<open>bit\<close>. A shift by 32 or more is undefined in C; \<open>push_bit\<close> shifts
  every bit out, as the ARM's register shift does.
\<close>

function reset_field :: "32 word \<Rightarrow> nat \<Rightarrow> nat \<Rightarrow> 32 word" where
  "reset_field v b stop =
     (if b < stop then reset_field (v AND NOT (push_bit b 1)) (b + 1) stop else v)"
  by pat_completeness auto
termination
  by (relation "measure (\<lambda>(v, b, stop). stop - b)") auto

declare reset_field.simps [simp del]

fun odo_set_gpt_field :: "nat \<Rightarrow> nat \<times> nat \<Rightarrow> 32 word \<Rightarrow> odo_state \<Rightarrow> odo_state" where
  "odo_set_gpt_field reg (pos, sz) val st =
     (let (v, st) = ioread32 reg st;
          v = reset_field v pos (pos + sz);
          mask = push_bit pos val;
          v = v OR mask
      in iowrite32 v reg st)"

definition odo_timer_setup :: "odo_state \<Rightarrow> int \<times> odo_state" where
  "odo_timer_setup st =
     (let st = odo_set_gpt_field TCTL_REG TCTL_TEN 0x0 st;
          st = odo_set_gpt_field TCTL_REG TCTL_CC 0x1 st;
          st = odo_set_gpt_field TCTL_REG TCTL_CLKSOURCE 0x3 st;
          st = odo_set_gpt_field TPRER_REG TPRER_PRESCALER 0x0 st;
          st = odo_set_gpt_field TCTL_REG TCTL_COMP_EN 0x1 st;
          st = odo_set_gpt_field TCTL_REG TCTL_FRR 0x0 st;
          st = odo_set_gpt_field TCMP_REG TCMP_CMP 0xFFFFFFFF st;
          st = odo_set_gpt_field TCTL_REG TCTL_TEN 0x1 st
      in (0, st))"

text \<open>
  \<^verbatim>\<open>odo_read_count\<close> returns the \<^verbatim>\<open>unsigned int\<close> it reads as an \<^verbatim>\<open>int\<close>, which
  \<^verbatim>\<open>counter_show\<close> stores in an \<^verbatim>\<open>unsigned long\<close>: the same 32 bits throughout.
\<close>

definition odo_read_count :: "odo_state \<Rightarrow> 32 word \<times> odo_state" where
  "odo_read_count st = ioread32 TCN_REG st"

definition odo_reset_count :: "odo_state \<Rightarrow> int \<times> odo_state" where
  "odo_reset_count st =
     (let st = st\<lparr>counter_ms := 0\<rparr>;
          st = st\<lparr>counter_ls := 0\<rparr>;
          st = odo_set_gpt_field TCTL_REG TCTL_TEN 0x0 st;
          st = msleep 10 st;
          st = odo_set_gpt_field TCTL_REG TCTL_TEN 0x1 st
      in (0, st))"

subsection \<open>The attributes (lines 147-207)\<close>

text \<open>
  \<^verbatim>\<open>counter_show\<close>, given the value of \<^verbatim>\<open>jiffies\<close>. The attribute prints
  \<^verbatim>\<open>counter_64\<close> in decimal; the model returns the number.
\<close>

definition counter_show :: "odo_state \<Rightarrow> 32 word \<Rightarrow> 64 word \<times> odo_state" where
  "counter_show st jiffies =
     (let (status, st) = ioread32 TSTAT_REG st;
          st = (if status AND TSTAT_COMP \<noteq> 0
                then iowrite32 TSTAT_COMP TSTAT_REG (st\<lparr>counter_ms := counter_ms st + 1\<rparr>)
                else st);
          (count, st) = odo_read_count st;
          st = st\<lparr>counter_ls := count\<rparr>;
          counter_64 = push_bit 32 (ucast (counter_ms st)) + ucast (counter_ls st);
          st = st\<lparr>nb_access := nb_access st + 1\<rparr>;
          st = st\<lparr>last_access := jiffies\<rparr>;
          st = (if first_access st = 0 then st\<lparr>first_access := last_access st\<rparr> else st)
      in (counter_64, st))"

definition nb_access_show :: "odo_state \<Rightarrow> 32 word" where
  "nb_access_show st = nb_access st"

text \<open>
  The three steps of \<^verbatim>\<open>counter_show\<close> on their own, so that something else can happen
  between them: the read of the status (line 152), the carry (lines 153-156) and the
  rest (lines 157-164). \<^verbatim>\<open>counter_show\<close> is the three in a row (lemma
  \<open>counter_show_phases\<close>).
\<close>

definition counter_show_status :: "odo_state \<Rightarrow> 32 word \<times> odo_state" where
  "counter_show_status st = ioread32 TSTAT_REG st"

definition counter_show_carry :: "32 word \<Rightarrow> odo_state \<Rightarrow> odo_state" where
  "counter_show_carry status st =
     (if status AND TSTAT_COMP \<noteq> 0
      then iowrite32 TSTAT_COMP TSTAT_REG (st\<lparr>counter_ms := counter_ms st + 1\<rparr>)
      else st)"

definition counter_show_rest :: "odo_state \<Rightarrow> 32 word \<Rightarrow> 64 word \<times> odo_state" where
  "counter_show_rest st jiffies =
     (let (count, st) = odo_read_count st;
          st = st\<lparr>counter_ls := count\<rparr>;
          counter_64 = push_bit 32 (ucast (counter_ms st)) + ucast (counter_ls st);
          st = st\<lparr>nb_access := nb_access st + 1\<rparr>;
          st = st\<lparr>last_access := jiffies\<rparr>;
          st = (if first_access st = 0 then st\<lparr>first_access := last_access st\<rparr> else st)
      in (counter_64, st))"

text \<open>
  \<^verbatim>\<open>mean_period_show\<close>. \<^verbatim>\<open>HZ\<close> is the tick rate of the kernel the module is built
  for, a parameter here. The arithmetic is that of \<^verbatim>\<open>unsigned long\<close>.
\<close>

definition mean_period_show :: "32 word \<Rightarrow> odo_state \<Rightarrow> 32 word" where
  "mean_period_show HZ st =
     (let diff = last_access st - first_access st
      in if nb_access st \<le> 0 then 0 else diff * 1000 div HZ div nb_access st)"

text \<open>
  \<^verbatim>\<open>reset_store\<close>. The parser \<^verbatim>\<open>kstrtoint(buf, 10, &reset)\<close> belongs to the kernel
  and is a parameter: it gives the return code and the parsed number.
\<close>

definition reset_store ::
  "(string \<Rightarrow> int \<times> int) \<Rightarrow> odo_state \<Rightarrow> string \<Rightarrow> nat \<Rightarrow> int \<times> odo_state" where
  "reset_store kstrtoint st buf count =
     (let (ret, reset) = kstrtoint buf
      in if ret < 0 then (ret, st)
         else if reset = 1 \<or> reset = of_char (CHR ''1'')
         then (let st = snd (odo_reset_count st);
                   st = st\<lparr>nb_access := 0\<rparr>;
                   st = st\<lparr>first_access := 0\<rparr>;
                   st = st\<lparr>last_access := 0\<rparr>
               in (int count, st))
         else (int count, st))"

subsection \<open>Module initialisation (lines 229-306)\<close>

text \<open>A C array read: outside the array there is no element to read.\<close>

definition array_get :: "'a list \<Rightarrow> int \<Rightarrow> 'a option" where
  "array_get xs i = (if 0 \<le> i \<and> i < int (length xs) then Some (xs ! nat i) else None)"

text \<open>What the kernel answers to the calls of \<^verbatim>\<open>odo_init\<close>.\<close>

record init_env =
  dt_timer :: "int option"
  kzalloc_ok :: bool
  mem_region_ok :: bool
  ioremap_ok :: bool
  gpio_request_rc :: int
  kobject_ok :: bool
  sysfs_ok :: bool
  registers :: "nat \<Rightarrow> 32 word"

datatype init_result =
  Loaded odo_state int
  | Failed int
  | OutOfBounds string int

text \<open>The structure after \<^verbatim>\<open>kzalloc\<close> and lines 250-255.\<close>

definition odo_alloc :: "32 word \<Rightarrow> (nat \<Rightarrow> 32 word) \<Rightarrow> odo_state" where
  "odo_alloc base regs =
     \<lparr>gpt_base = base, vmem = regs, counter_ms = 0, counter_ls = 0, nb_access = 0,
      first_access = 0, last_access = 0, iolog = []\<rparr>"

text \<open>
  \<^verbatim>\<open>odo_init\<close> with the module parameter \<^verbatim>\<open>gpt_id\<close>. The first read of
  \<^verbatim>\<open>gpio[gpt_id]\<close> is the argument of the message printed before the range check.
\<close>

definition odo_init :: "init_env \<Rightarrow> int \<Rightarrow> init_result" where
  "odo_init env gpt_id0 =
     (case (case dt_timer env of
              None \<Rightarrow>
                (case array_get GPT_TIN gpt_id0 of
                   None \<Rightarrow> Inl (OutOfBounds ''gpio'' gpt_id0)
                 | Some _ \<Rightarrow>
                     if gpt_id0 < 2 \<or> gpt_id0 > 6 then Inl (Failed (- EINVAL))
                     else Inr gpt_id0)
            | Some t \<Rightarrow> Inr t) of
        Inl r \<Rightarrow> r
      | Inr gpt_id \<Rightarrow>
          if \<not> kzalloc_ok env then Failed (- ENOMEM)
          else
            (case array_get MEM_GPT_OFFSET (gpt_id - 1) of
               None \<Rightarrow> OutOfBounds ''offset'' (gpt_id - 1)
             | Some off \<Rightarrow>
                 let st = odo_alloc (MEM_BASE OR off) (registers env)
                 in if \<not> mem_region_ok env then Failed (- ENOMEM)
                    else if \<not> ioremap_ok env then Failed (- ENOMEM)
                    else
                      (case array_get GPT_TIN gpt_id of
                         None \<Rightarrow> OutOfBounds ''gpio'' gpt_id
                       | Some pin \<Rightarrow>
                           if gpio_request_rc env < 0 then Failed (gpio_request_rc env)
                           else
                             let st = snd (odo_timer_setup st)
                             in if \<not> kobject_ok env then Failed (- ENOMEM)
                                else if \<not> sysfs_ok env then Failed (- ENOMEM)
                                else Loaded st pin)))"

subsection \<open>Sequences of queries\<close>

text \<open>
  A run of queries with no reset between them. Before each query the environment
  presents the status, the count and the clock the query will read.
\<close>

fun queries :: "odo_state \<Rightarrow> (32 word \<times> 32 word \<times> 32 word) list \<Rightarrow> 64 word list \<times> odo_state" where
  "queries st [] = ([], st)"
| "queries st ((status, count, jiffies) # rest) =
     (let (v, st) = counter_show (hw_present status count st) jiffies;
          (vs, st) = queries st rest
      in (v # vs, st))"

text \<open>
  A run in which the two reads of every query agree: between two consecutive queries
  the count read does not decrease unless the later query finds the flag set.
\<close>

definition comp_set :: "32 word \<Rightarrow> bool" where
  "comp_set status = (status AND TSTAT_COMP \<noteq> 0)"

fun counts_ordered :: "(32 word \<times> 32 word \<times> 32 word) list \<Rightarrow> bool" where
  "counts_ordered [] = True"
| "counts_ordered [x] = True"
| "counts_ordered ((s, c, j) # (s', c', j') # rest) =
     ((comp_set s' \<or> c \<le> c') \<and> counts_ordered ((s', c', j') # rest))"

text \<open>The number of queries of a run that find the flag set.\<close>

definition carries :: "(32 word \<times> 32 word \<times> 32 word) list \<Rightarrow> nat" where
  "carries obs = length (filter (\<lambda>(s, c, j). comp_set s) obs)"

subsection \<open>Queries that are not alone\<close>

text \<open>
  Modelled from the spec: the timer is hardware, not code of the repository. Section 4.3:
  the compare threshold is the maximum 32-bit value and a compare-match "signals the
  low-order counter has wrapped back to zero". One pulse on the input: the count goes up
  by one; from \<open>0xFFFFFFFF\<close> it restarts at 0 and the compare flag is raised.
\<close>

definition gpt_pulse :: "odo_state \<Rightarrow> odo_state" where
  "gpt_pulse st =
     (let count = vmem st TCN_REG + 1
      in st\<lparr>vmem := (vmem st)
           (TCN_REG := count,
            TSTAT_REG := (if count = 0 then vmem st TSTAT_REG OR TSTAT_COMP
                          else vmem st TSTAT_REG))\<rparr>)"

text \<open>A query during which one pulse arrives after the status is read (line 152).\<close>

definition counter_show_pulsed :: "odo_state \<Rightarrow> 32 word \<Rightarrow> 64 word \<times> odo_state" where
  "counter_show_pulsed st jiffies =
     (let (status, st) = counter_show_status st;
          st = gpt_pulse st;
          st = counter_show_carry status st
      in counter_show_rest st jiffies)"

text \<open>
  Two reads of the counter attribute by two processes, \<open>a\<close> and \<open>b\<close>, in one of the
  orders that nothing in \<^verbatim>\<open>odo.c\<close> excludes, since it takes no lock: both read the status
  before either folds the carry.
\<close>

definition counter_show_interleaved ::
  "odo_state \<Rightarrow> 32 word \<Rightarrow> 32 word \<Rightarrow> (64 word \<times> 64 word) \<times> odo_state" where
  "counter_show_interleaved st jiffies_a jiffies_b =
     (let (status_a, st) = counter_show_status st;
          (status_b, st) = counter_show_status st;
          st = counter_show_carry status_a st;
          st = counter_show_carry status_b st;
          (value_a, st) = counter_show_rest st jiffies_a;
          (value_b, st) = counter_show_rest st jiffies_b
      in ((value_a, value_b), st))"

subsection \<open>The field accessor as the specification words it\<close>

text \<open>
  Spec section 4.1: the accessor "clears the \<open>bit_width\<close> bits starting at
  \<open>bit_offset\<close>, ORs in \<open>(value << bit_offset)\<close>". This is the value it is said to write
  back, for the register value \<open>r\<close> and the field \<open>f\<close> (offset, width).
\<close>

definition set_field_spec :: "32 word \<Rightarrow> nat \<times> nat \<Rightarrow> 32 word \<Rightarrow> 32 word" where
  "set_field_spec r f v = (r AND NOT (push_bit (fst f) (mask (snd f)))) OR push_bit (fst f) v"

subsection \<open>The mean period as the specification words it\<close>

text \<open>
  Spec section 4.4: \<open>0\<close> if \<open>access_count == 0\<close>, else
  \<open>(last_access_time - first_access_time) * 1000 / ticks_per_second / access_count\<close>,
  truncated to an integer; on integers, with the division that truncates towards zero.
\<close>

definition tdiv :: "int \<Rightarrow> int \<Rightarrow> int" where
  "tdiv a b = (if (a < 0) = (b < 0) then \<bar>a\<bar> div \<bar>b\<bar> else - (\<bar>a\<bar> div \<bar>b\<bar>))"

definition mean_period_spec :: "int \<Rightarrow> int \<Rightarrow> int \<Rightarrow> int \<Rightarrow> int" where
  "mean_period_spec first_access_time last_access_time ticks_per_second access_count =
     (if access_count = 0 then 0
      else tdiv (tdiv ((last_access_time - first_access_time) * 1000) ticks_per_second)
             access_count)"

subsection \<open>The parser of the reset attribute\<close>

text \<open>
  Modelled from the spec: \<^verbatim>\<open>kstrtoint\<close> is the kernel's and is not in the repository.
  Section 6 tells a write that holds a "parseable integer" from "unparseable input". The
  text parsed in base 10 is an optional sign, decimal digits and an optional final
  newline; the answer is the return code (0, \<^verbatim>\<open>-EINVAL\<close> for a malformed text,
  \<^verbatim>\<open>-ERANGE\<close> for a number that does not fit an \<^verbatim>\<open>int\<close>) and the number. It
  serves to run \<^verbatim>\<open>reset_store\<close> on concrete texts; the general properties of
  \<^verbatim>\<open>reset_store\<close> are proved for any parser.
\<close>

definition is_digit :: "char \<Rightarrow> bool" where
  "is_digit c = (48 \<le> (of_char c :: nat) \<and> (of_char c :: nat) \<le> 57)"

definition digits_value :: "string \<Rightarrow> nat" where
  "digits_value ds = foldl (\<lambda>acc c. acc * 10 + (of_char c - 48)) 0 ds"

definition kstrtoint_10 :: "string \<Rightarrow> int \<times> int" where
  "kstrtoint_10 s =
     (let neg = (s \<noteq> [] \<and> hd s = CHR ''-'');
          s1 = (if neg then tl s else if s \<noteq> [] \<and> hd s = CHR ''+'' then tl s else s);
          ds = takeWhile is_digit s1;
          s2 = dropWhile is_digit s1;
          s3 = (if s2 \<noteq> [] \<and> hd s2 = CHR 0x0A then tl s2 else s2);
          n = digits_value ds
      in if 2 ^ 64 \<le> n then (- ERANGE, 0)
         else if ds = [] then (- EINVAL, 0)
         else if s3 \<noteq> [] then (- EINVAL, 0)
         else let v = (if neg then - int n else int n)
              in if v < - (2 ^ 31) \<or> 2 ^ 31 \<le> v then (- ERANGE, 0) else (0, v))"

subsection \<open>Concrete channels\<close>

text \<open>
  The structure as \<^verbatim>\<open>odo_init\<close> allocates it for timer 2, over a control register
  that holds \<open>0x1F\<close>.
\<close>

definition odo_example :: odo_state where
  "odo_example = odo_alloc 0x10004000 (\<lambda>reg. if reg = TCTL_REG then 0x1F else 0)"

text \<open>The same channel after some use: two carries, three queries.\<close>

definition odo_busy :: odo_state where
  "odo_busy = odo_example\<lparr>counter_ms := 2, counter_ls := 7, nb_access := 3,
     first_access := 100, last_access := 1000\<rparr>"

text \<open>The channel with the high word at its maximum.\<close>

definition odo_full :: odo_state where
  "odo_full = odo_example\<lparr>counter_ms := 0xFFFFFFFF\<rparr>"

text \<open>Three queries over 900 ticks.\<close>

definition odo_three :: odo_state where
  "odo_three = odo_example\<lparr>nb_access := 3, first_access := 100, last_access := 1000\<rparr>"

text \<open>A module load with no device-tree node, where every call of the kernel succeeds.\<close>

definition boot_env :: init_env where
  "boot_env = \<lparr>dt_timer = None, kzalloc_ok = True, mem_region_ok = True, ioremap_ok = True,
     gpio_request_rc = 0, kobject_ok = True, sysfs_ok = True,
     registers = (\<lambda>reg. 0)\<rparr>"

lemmas reg_defs = TCTL_REG_def TPRER_REG_def TCMP_REG_def TCN_REG_def TSTAT_REG_def

lemmas field_defs = TCTL_TEN_def TCTL_CLKSOURCE_def TCTL_COMP_EN_def TCTL_FRR_def TCTL_CC_def
  TCMP_CMP_def TPRER_PRESCALER_def

lemmas phase_defs = counter_show_status_def counter_show_carry_def counter_show_rest_def
  ioread32_def iowrite32_def odo_read_count_def gpt_latch_def


section \<open>The register field accessor\<close>

lemma reset_field_bit:
  "bit (reset_field v b e) n \<longleftrightarrow> bit v n \<and> \<not> (b \<le> n \<and> n < e)"
proof (induction v b e rule: reset_field.induct)
  case (1 v b e)
  show ?case
  proof (cases "b < e")
    case True
    have "bit (reset_field v b e) n = bit (reset_field (v AND NOT (push_bit b 1)) (b + 1) e) n"
      using True by (subst reset_field.simps) simp
    also have "\<dots> \<longleftrightarrow> bit (v AND NOT (push_bit b 1)) n \<and> \<not> (b + 1 \<le> n \<and> n < e)"
      using "1.IH" [OF True] .
    also have "\<dots> \<longleftrightarrow> bit v n \<and> \<not> (b \<le> n \<and> n < e)"
      using True by (auto simp: bit_simps dest: bit_imp_le_length)
    finally show ?thesis .
  next
    case False
    then show ?thesis
      by (subst reset_field.simps) simp
  qed
qed

lemma reset_field_mask: "reset_field v p (p + w) = v AND NOT (push_bit p (mask w))"
  by (rule bit_word_eqI) (auto simp: reset_field_bit bit_simps)

lemma odo_set_gpt_field_eq:
  "odo_set_gpt_field reg f v st =
     st\<lparr>vmem := (vmem st)(reg := gpt_latch reg (vmem st reg) (set_field_spec (vmem st reg) f v)),
        iolog := iolog st @ [IoRead reg (vmem st reg),
                             IoWrite reg (set_field_spec (vmem st reg) f v)]\<rparr>"
  by (cases f)
    (simp add: ioread32_def iowrite32_def reset_field_mask set_field_spec_def Let_def)

lemma word_bit_above:
  fixes v :: "32 word"
  assumes "unat v < 2 ^ w" and "w \<le> k"
  shows "\<not> bit v k"
proof -
  have "take_bit w (unat v) = unat v"
    using assms(1) by (simp add: take_bit_nat_eq_self)
  then have "bit (unat v) k \<longleftrightarrow> bit (take_bit w (unat v)) k"
    by simp
  also have "\<dots> \<longleftrightarrow> False"
    using assms(2) by (simp add: bit_take_bit_iff)
  finally show ?thesis
    by (simp add: bit_unsigned_iff)
qed

lemma set_field_spec_outside:
  assumes "unat v < 2 ^ w" and "n < p \<or> p + w \<le> n"
  shows "bit (set_field_spec r (p, w) v) n = bit r n"
proof -
  have "\<not> bit v (n - p)" if "p + w \<le> n"
    using assms(1) that by (intro word_bit_above [where w = w]) auto
  then show ?thesis
    using assms(2) by (auto simp: set_field_spec_def bit_simps dest: bit_imp_le_length)
qed

lemma set_field_spec_inside:
  assumes "p + w \<le> 32" and "n < w"
  shows "bit (set_field_spec r (p, w) v) (p + n) = bit v n"
  using assms by (auto simp: set_field_spec_def bit_simps)

text \<open>
  C7. For a field inside the register (\<open>p + w \<le> 32\<close>) and a value that fits it
  (\<open>v < 2 ^ w\<close>), \<^verbatim>\<open>odo_set_gpt_field\<close> reads the named register once and writes
  back once, the value read with the \<open>w\<close> bits from \<open>p\<close> cleared, OR \<open>v << p\<close>.
  Every bit of the written value outside the field is the bit that was read, the field
  holds \<open>v\<close>, and nothing else of the state changes: no other register, no counter.
\<close>

theorem odo_set_gpt_field_writes_field:
  assumes "p + w \<le> 32" and "unat v < 2 ^ w"
  shows "(let r = vmem st reg; x = set_field_spec r (p, w) v
          in odo_set_gpt_field reg (p, w) v st =
               st\<lparr>vmem := (vmem st)(reg := gpt_latch reg r x),
                  iolog := iolog st @ [IoRead reg r, IoWrite reg x]\<rparr>
             \<and> (\<forall>n. n < p \<or> p + w \<le> n \<longrightarrow> bit x n = bit r n)
             \<and> (\<forall>n < w. bit x (p + n) = bit v n))"
  using assms
  by (simp add: Let_def odo_set_gpt_field_eq set_field_spec_outside set_field_spec_inside
      del: odo_set_gpt_field.simps)

theorem odo_set_gpt_field_writes_field_witness:
  "(1::nat) + 3 \<le> 32 \<and> unat (3 :: 32 word) < 2 ^ 3
   \<and> odo_set_gpt_field TCTL_REG (1, 3) 3 odo_example =
       odo_example\<lparr>vmem := (vmem odo_example)(TCTL_REG := 0x17),
                    iolog := [IoRead TCTL_REG 0x1F, IoWrite TCTL_REG 0x17]\<rparr>"
  using odo_set_gpt_field_writes_field [of 1 3 3 odo_example TCTL_REG]
  by (simp add: Let_def set_field_spec_def odo_example_def odo_alloc_def gpt_latch_def
      mask_eq_exp_minus_1 TCTL_REG_def TSTAT_REG_def del: odo_set_gpt_field.simps)

section \<open>The timer configurator\<close>

lemma and_not_or_merge:
  fixes x :: "32 word"
  shows "((x AND NOT a) OR b) AND NOT c OR d = (x AND NOT (a OR c)) OR ((b AND NOT c) OR d)"
  by (rule bit_word_eqI) (auto simp: bit_simps)

text \<open>
  C8. From any state, \<^verbatim>\<open>odo_timer_setup\<close> makes exactly eight field writes, each a
  read of the register followed by a write, in this order: counting disabled (TEN = 0),
  reset-on-disable enabled (CC = 1), clock source TIN (CLKSOURCE = 3), prescaler divisor 1
  (PRESCALER = 0), compare action enabled (COMP_EN = 1), restart on compare (FRR = 0),
  compare value \<open>0xFFFFFFFF\<close>, counting enabled (TEN = 1). Every value written to the
  control register before the last has the enable bit clear; the last has it set.
\<close>

theorem odo_timer_setup_sequence:
  "(let c0 = vmem st TCTL_REG;
        c1 = set_field_spec c0 TCTL_TEN 0;
        c2 = set_field_spec c1 TCTL_CC 1;
        c3 = set_field_spec c2 TCTL_CLKSOURCE 3;
        p0 = vmem st TPRER_REG;
        p1 = set_field_spec p0 TPRER_PRESCALER 0;
        c4 = set_field_spec c3 TCTL_COMP_EN 1;
        c5 = set_field_spec c4 TCTL_FRR 0;
        t0 = vmem st TCMP_REG;
        t1 = set_field_spec t0 TCMP_CMP 0xFFFFFFFF;
        c6 = set_field_spec c5 TCTL_TEN 1
    in odo_timer_setup st =
         (0, st\<lparr>vmem := (\<lambda>reg. if reg = TCTL_REG then c6
                               else if reg = TPRER_REG then p1
                               else if reg = TCMP_REG then t1
                               else vmem st reg),
                iolog := iolog st @
                  [IoRead TCTL_REG c0, IoWrite TCTL_REG c1,
                   IoRead TCTL_REG c1, IoWrite TCTL_REG c2,
                   IoRead TCTL_REG c2, IoWrite TCTL_REG c3,
                   IoRead TPRER_REG p0, IoWrite TPRER_REG p1,
                   IoRead TCTL_REG c3, IoWrite TCTL_REG c4,
                   IoRead TCTL_REG c4, IoWrite TCTL_REG c5,
                   IoRead TCMP_REG t0, IoWrite TCMP_REG t1,
                   IoRead TCTL_REG c5, IoWrite TCTL_REG c6]\<rparr>)
       \<and> \<not> bit c1 0 \<and> \<not> bit c2 0 \<and> \<not> bit c3 0 \<and> \<not> bit c4 0 \<and> \<not> bit c5 0 \<and> bit c6 0
       \<and> c6 = (c0 AND NOT 0x51F) OR 0x417
       \<and> p1 = p0 AND NOT 0x3FF
       \<and> t1 = 0xFFFFFFFF)"
proof -
  define c0 where "c0 = vmem st TCTL_REG"
  have c6: "set_field_spec (set_field_spec (set_field_spec (set_field_spec (set_field_spec
      (set_field_spec c0 TCTL_TEN 0) TCTL_CC 1) TCTL_CLKSOURCE 3) TCTL_COMP_EN 1) TCTL_FRR 0)
      TCTL_TEN 1 = (c0 AND NOT 0x51F) OR 0x417"
    unfolding set_field_spec_def field_defs fst_conv snd_conv and_not_or_merge
    by (simp add: mask_eq_exp_minus_1)
  have max32: "(0xFFFFFFFF :: 32 word) = - 1"
    by simp
  show ?thesis
    unfolding Let_def c0_def [symmetric]
    apply (intro conjI)
    subgoal by (simp add: c0_def odo_timer_setup_def Let_def odo_set_gpt_field_eq gpt_latch_def reg_defs fun_eq_iff)
    subgoal by (simp add: set_field_spec_def field_defs bit_simps)
    subgoal by (simp add: set_field_spec_def field_defs bit_simps)
    subgoal by (simp add: set_field_spec_def field_defs bit_simps)
    subgoal by (simp add: set_field_spec_def field_defs bit_simps)
    subgoal by (simp add: set_field_spec_def field_defs bit_simps)
    subgoal by (simp add: set_field_spec_def field_defs bit_simps)
    subgoal by (rule c6)
    subgoal by (simp add: set_field_spec_def field_defs mask_eq_exp_minus_1)
    subgoal unfolding set_field_spec_def field_defs fst_conv snd_conv max32 by simp
    done
qed


theorem odo_timer_setup_sequence_witness:
  "fst (odo_timer_setup odo_example) = 0
   \<and> iolog (snd (odo_timer_setup odo_example)) =
       [IoRead TCTL_REG 0x1F, IoWrite TCTL_REG 0x1E,
        IoRead TCTL_REG 0x1E, IoWrite TCTL_REG 0x41E,
        IoRead TCTL_REG 0x41E, IoWrite TCTL_REG 0x416,
        IoRead TPRER_REG 0, IoWrite TPRER_REG 0,
        IoRead TCTL_REG 0x416, IoWrite TCTL_REG 0x416,
        IoRead TCTL_REG 0x416, IoWrite TCTL_REG 0x416,
        IoRead TCMP_REG 0, IoWrite TCMP_REG 0xFFFFFFFF,
        IoRead TCTL_REG 0x416, IoWrite TCTL_REG 0x417]
   \<and> vmem (snd (odo_timer_setup odo_example)) TCTL_REG = 0x417
   \<and> vmem (snd (odo_timer_setup odo_example)) TPRER_REG = 0
   \<and> vmem (snd (odo_timer_setup odo_example)) TCMP_REG = 0xFFFFFFFF"
  using odo_timer_setup_sequence [of odo_example]
  by (simp add: Let_def odo_example_def odo_alloc_def set_field_spec_def field_defs reg_defs
      mask_eq_exp_minus_1)

section \<open>The overflow-extended counter\<close>

lemma counter_64_or:
  fixes a b :: "32 word"
  shows "push_bit 32 (ucast a :: 64 word) + ucast b = push_bit 32 (ucast a) OR ucast b"
  by (rule disjunctive_add) (auto simp: bit_simps dest: bit_imp_le_length)

text \<open>
  C1. From any state, one \<^verbatim>\<open>counter_show\<close> reads the status register; when the
  compare flag is set it adds exactly 1 to \<open>counter_ms\<close> and writes \<open>TSTAT_COMP\<close> to the
  status register, which clears the flag; it then reads the count register and returns
  \<open>(counter_ms << 32) | count\<close> with the count just read.
\<close>

theorem counter_show_steps:
  "(let status = vmem st TSTAT_REG;
        carry = (status AND TSTAT_COMP \<noteq> 0);
        count = vmem st TCN_REG;
        high = (if carry then counter_ms st + 1 else counter_ms st);
        (ret, st') = counter_show st jiffies
    in counter_ms st' = high
       \<and> iolog st' = iolog st @ [IoRead TSTAT_REG status]
            @ (if carry then [IoWrite TSTAT_REG TSTAT_COMP] else [])
            @ [IoRead TCN_REG count]
       \<and> vmem st' = (if carry then (vmem st)(TSTAT_REG := status AND NOT TSTAT_COMP) else vmem st)
       \<and> counter_ls st' = count
       \<and> ret = push_bit 32 (ucast high) OR ucast count)"
  by (simp add: counter_show_def Let_def ioread32_def iowrite32_def odo_read_count_def
      gpt_latch_def counter_64_or reg_defs)

theorem counter_show_steps_witness:
  "vmem (hw_present 1 5 odo_busy) TSTAT_REG AND TSTAT_COMP \<noteq> 0
   \<and> fst (counter_show (hw_present 1 5 odo_busy) 1234) = 0x300000005
   \<and> counter_ms (snd (counter_show (hw_present 1 5 odo_busy) 1234)) = 3
   \<and> vmem (snd (counter_show (hw_present 1 5 odo_busy) 1234)) TSTAT_REG = 0
   \<and> iolog (snd (counter_show (hw_present 1 5 odo_busy) 1234)) =
        [IoRead TSTAT_REG 1, IoWrite TSTAT_REG 1, IoRead TCN_REG 5]
   \<and> fst (counter_show (hw_present 0 9 odo_busy) 1234) = 0x200000009
   \<and> iolog (snd (counter_show (hw_present 0 9 odo_busy) 1234)) =
        [IoRead TSTAT_REG 0, IoRead TCN_REG 9]"
  using counter_show_steps [of "hw_present 1 5 odo_busy" 1234]
    counter_show_steps [of "hw_present 0 9 odo_busy" 1234]
  by (simp add: Let_def split_def hw_present_def odo_busy_def odo_example_def odo_alloc_def
      reg_defs TSTAT_COMP_def)

lemma unat_counter_64:
  fixes a b :: "32 word"
  shows "unat (push_bit 32 (ucast a :: 64 word) + ucast b) = unat a * 2 ^ 32 + unat b"
proof -
  have a: "unat a < 2 ^ 32" and b: "unat b < 2 ^ 32"
    using unsigned_less [of a] unsigned_less [of b] by simp_all
  have ua: "unat (ucast a :: 64 word) = unat a"
    using a by (simp add: unsigned_ucast_eq take_bit_nat_eq_self)
  have ub: "unat (ucast b :: 64 word) = unat b"
    using b by (simp add: unsigned_ucast_eq take_bit_nat_eq_self)
  have "unat (ucast a :: 64 word) * unat (4294967296 :: 64 word) < 2 ^ 64"
    using a by (simp add: ua)
  then have "unat ((ucast a :: 64 word) * 4294967296) = unat a * 4294967296"
    using unat_mult_lem [of "ucast a :: 64 word" 4294967296] by (simp add: ua)
  then have pa: "unat (push_bit 32 (ucast a :: 64 word)) = unat a * 2 ^ 32"
    by (simp add: push_bit_eq_mult)
  have "unat a * 2 ^ 32 + unat b < 2 ^ 64"
    using a b by simp
  then show ?thesis
    using unat_add_lem [of "push_bit 32 (ucast a :: 64 word)" "ucast b"]
    by (simp add: pa ub)
qed

lemma query_value:
  "fst (counter_show (hw_present s c st) j) =
     push_bit 32 (ucast (if comp_set s then counter_ms st + 1 else counter_ms st)) + ucast c"
  by (simp add: counter_show_def hw_present_def Let_def ioread32_def iowrite32_def
      odo_read_count_def gpt_latch_def comp_set_def TSTAT_REG_def TCN_REG_def)

lemma query_high:
  "counter_ms (snd (counter_show (hw_present s c st) j)) =
     (if comp_set s then counter_ms st + 1 else counter_ms st)"
  by (simp add: counter_show_def hw_present_def Let_def ioread32_def iowrite32_def
      odo_read_count_def gpt_latch_def comp_set_def TSTAT_REG_def TCN_REG_def)

lemma queries_Cons:
  "fst (queries st ((s, c, j) # rest)) =
     fst (counter_show (hw_present s c st) j)
       # fst (queries (snd (counter_show (hw_present s c st) j)) rest)"
  by (simp add: split_def Let_def)

lemma unat_high_step:
  assumes "unat (ms :: 32 word) + (if f then 1 else 0) < 2 ^ 32"
  shows "unat (if f then ms + 1 else ms) = unat ms + (if f then 1 else 0)"
  using assms unat_add_lem [of ms 1] by auto

lemma carries_Cons:
  "carries ((s, c, j) # obs) = (if comp_set s then 1 else 0) + carries obs"
  by (simp add: carries_def)

lemma query_le:
  fixes c c' ms :: "32 word"
  assumes "comp_set s' \<or> c \<le> c'"
    and "unat ms + (if comp_set s' then 1 else 0) < 2 ^ 32"
  shows "push_bit 32 (ucast ms :: 64 word) + ucast c
           \<le> push_bit 32 (ucast (if comp_set s' then ms + 1 else ms)) + ucast c'"
proof -
  have c: "unat c < 2 ^ 32"
    using unsigned_less [of c] by simp
  show ?thesis
  proof (cases "comp_set s'")
    case True
    with assms(2) have "unat (ms + 1) = unat ms + 1"
      using unat_high_step [of ms True] by simp
    with True c show ?thesis
      by (simp add: word_le_nat_alt unat_counter_64)
  next
    case False
    with assms(1) have "unat c \<le> unat c'"
      by (simp add: word_le_nat_alt)
    with False show ?thesis
      by (simp add: word_le_nat_alt unat_counter_64)
  qed
qed

text \<open>
  The carry itself is folded in order: in a run in which the two reads of every query
  agree and the high word does not overflow, the values returned are non-decreasing.
\<close>

lemma queries_sorted:
  "counts_ordered obs \<Longrightarrow> unat (counter_ms st) + carries obs < 2 ^ 32
     \<Longrightarrow> sorted (fst (queries st obs))"
proof (induction obs arbitrary: st rule: counts_ordered.induct)
  case 1
  then show ?case by simp
next
  case (2 x)
  then show ?case by (cases x) (simp add: split_def Let_def)
next
  case (3 s c j s' c' j' rest)
  let ?st1 = "snd (counter_show (hw_present s c st) j)"
  let ?ms1 = "if comp_set s then counter_ms st + 1 else counter_ms st"
  have ms1: "counter_ms ?st1 = ?ms1"
    by (rule query_high)
  have bound: "unat (counter_ms st) + (if comp_set s then 1 else 0)
      + carries ((s', c', j') # rest) < 2 ^ 32"
    using "3.prems"(2) by (simp add: carries_Cons [of s] split: if_splits)
  then have u1: "unat ?ms1 = unat (counter_ms st) + (if comp_set s then 1 else 0)"
    using unat_high_step [of "counter_ms st" "comp_set s"] by simp
  have b1: "unat (counter_ms ?st1) + carries ((s', c', j') # rest) < 2 ^ 32"
    using bound by (simp only: ms1 u1)
  have ord: "counts_ordered ((s', c', j') # rest)" and step: "comp_set s' \<or> c \<le> c'"
    using "3.prems"(1) by simp_all
  have ih: "sorted (fst (queries ?st1 ((s', c', j') # rest)))"
    using "3.IH" [OF ord b1] .
  have b2: "unat ?ms1 + (if comp_set s' then 1 else 0) < 2 ^ 32"
    using b1 by (simp add: ms1 carries_Cons [of s'] split: if_splits)
  have le: "fst (counter_show (hw_present s c st) j)
      \<le> fst (counter_show (hw_present s' c' ?st1) j')"
    unfolding query_value ms1 using query_le [OF step b2] .
  show ?case
    using ih le
    by (simp only: queries_Cons [of st] queries_Cons [of ?st1] sorted2 simp_thms)
qed

text \<open>The high word is 32 bits wide: at \<open>0xFFFFFFFF\<close> a carry wraps it to 0.\<close>

lemma high_word_wraps:
  "counts_ordered [(0, 5, 1), (1, 5, 2)]
   \<and> fst (queries odo_full [(0, 5, 1), (1, 5, 2)]) = [0xFFFFFFFF00000005, 5]"
  by (simp add: comp_set_def TSTAT_COMP_def odo_full_def odo_example_def odo_alloc_def
      counter_show_def hw_present_def Let_def ioread32_def iowrite32_def
      odo_read_count_def gpt_latch_def reg_defs)

lemma counter_show_phases:
  "counter_show st jiffies =
     (let (status, st) = counter_show_status st;
          st = counter_show_carry status st
      in counter_show_rest st jiffies)"
  by (simp add: counter_show_def counter_show_status_def counter_show_carry_def
      counter_show_rest_def Let_def split_def)

text \<open>
  C2. With a count that only goes up modulo the wrap and at most one wrap between two
  queries, the values returned should be non-decreasing. They are not:
  \<^verbatim>\<open>counter_show\<close> reads the status (line 152) and the count (line 157) at two moments.
  On a new channel whose count has reached \<open>0xFFFFFFFF\<close> a first query returns
  \<open>0xFFFFFFFF\<close>. During the second query one pulse arrives after the status is read:
  the count restarts at 0 and the flag is raised too late for this query, which returns
  0. The third query folds the carry and returns \<open>0x100000000\<close>.
\<close>

theorem counter_show_race_decreases:
  "fst (counter_show (hw_present 0 0xFFFFFFFF odo_example) 1) = 0xFFFFFFFF
   \<and> fst (counter_show_pulsed (snd (counter_show (hw_present 0 0xFFFFFFFF odo_example) 1)) 2) = 0
   \<and> fst (counter_show (snd (counter_show_pulsed
         (snd (counter_show (hw_present 0 0xFFFFFFFF odo_example) 1)) 2)) 3) = 0x100000000
   \<and> \<not> sorted [0xFFFFFFFF, 0, 0x100000000 :: 64 word]"
  by (simp add: counter_show_phases counter_show_pulsed_def gpt_pulse_def phase_defs
      hw_present_def odo_example_def odo_alloc_def Let_def split_def reg_defs TSTAT_COMP_def)

text \<open>
  C9. The read of the status, the increment of the high word and the clearing of the
  flag should run under a lock, so that two queries never count one overflow twice.
  \<^verbatim>\<open>odo.c\<close> takes no lock. With the flag raised once and two reads of the attribute
  that both read the status before either folds the carry, both see the flag and both
  increment: the high word goes from 0 to 2 and both return \<open>0x200000005\<close>, where two
  queries one after the other leave it at 1.
\<close>

theorem counter_show_interleaved_counts_twice:
  "vmem (hw_present 1 5 odo_example) TSTAT_REG = TSTAT_COMP
   \<and> counter_ms (hw_present 1 5 odo_example) = 0
   \<and> counter_ms (snd (counter_show_interleaved (hw_present 1 5 odo_example) 10 11)) = 2
   \<and> fst (counter_show_interleaved (hw_present 1 5 odo_example) 10 11) =
       (0x200000005, 0x200000005)
   \<and> counter_ms (snd (counter_show (snd (counter_show (hw_present 1 5 odo_example) 10)) 11)) = 1"
  by (simp add: counter_show_phases counter_show_interleaved_def phase_defs
      hw_present_def odo_example_def odo_alloc_def Let_def reg_defs TSTAT_COMP_def)

text \<open>The same from any state in which the flag is raised.\<close>

lemma interleaved_double_count:
  assumes "vmem st TSTAT_REG AND TSTAT_COMP \<noteq> 0"
  shows "counter_ms (snd (counter_show_interleaved st ja jb)) = counter_ms st + 2"
  using assms
  by (simp add: counter_show_interleaved_def phase_defs Let_def)

section \<open>The telemetry tracker\<close>

lemma unat_scaled_div:
  fixes d n HZ :: "32 word"
  assumes "unat d * 1000 < 2 ^ 32"
  shows "unat (d * 1000 div HZ div n) = unat d * 1000 div unat HZ div unat n"
proof -
  have "unat d * unat (1000 :: 32 word) < 2 ^ LENGTH(32)"
    using assms by simp
  then have "unat (d * 1000) = unat d * 1000"
    using unat_mult_lem [of d 1000] by simp
  then show ?thesis
    by (simp add: unat_div)
qed

lemma mean_period_show_eq:
  "mean_period_show HZ st =
     (if nb_access st = 0 then 0
      else (last_access st - first_access st) * 1000 div HZ div nb_access st)"
  by (simp add: mean_period_show_def Let_def)

lemma tdiv_nonneg: "0 \<le> a \<Longrightarrow> 0 \<le> b \<Longrightarrow> tdiv a b = a div b"
  by (simp add: tdiv_def)

lemma mean_period_spec_nat:
  "mean_period_spec (int f) (int (f + d)) (int h) (int n) =
     (if n = 0 then 0 else int (d * 1000 div h div n))"
proof -
  have t: "tdiv (int a) (int b) = int (a div b)" for a b :: nat
    by (simp add: tdiv_nonneg zdiv_int)
  have "(int (f + d) - int f) * 1000 = int (d * 1000)"
    by simp
  then show ?thesis
    by (simp only: mean_period_spec_def of_nat_eq_0_iff t)
qed

lemma mean_period_spec_step:
  assumes le: "first_access st \<le> last_access st"
  shows "mean_period_spec (uint (first_access st)) (uint (last_access st)) (uint HZ)
        (uint (nb_access st)) =
        (if unat (nb_access st) = 0 then 0
         else int (unat (last_access st - first_access st) * 1000 div unat HZ div unat (nb_access st)))"
proof -
  have d: "unat (last_access st) = unat (first_access st) + unat (last_access st - first_access st)"
    using le by (simp add: unat_sub word_le_nat_alt)
  have "mean_period_spec (int (unat (first_access st)))
      (int (unat (first_access st) + unat (last_access st - first_access st)))
      (int (unat HZ)) (int (unat (nb_access st))) =
        (if unat (nb_access st) = 0 then 0
         else int (unat (last_access st - first_access st) * 1000 div unat HZ div unat (nb_access st)))"
    by (rule mean_period_spec_nat)
  then show ?thesis
    by (simp only: uint_nat d [symmetric])
qed

text \<open>
  While the product \<open>d * 1000\<close> fits in 32 bits, with \<open>d\<close> the difference of the
  timestamps, the code and the formula of the specification agree.
\<close>

lemma mean_period_show_in_range:
  "(let d = last_access st - first_access st
    in (nb_access st = 0 \<longrightarrow> mean_period_show HZ st = 0)
       \<and> (nb_access st \<noteq> 0 \<and> unat d * 1000 < 2 ^ 32 \<longrightarrow>
            unat (mean_period_show HZ st) = unat d * 1000 div unat HZ div unat (nb_access st))
       \<and> (first_access st \<le> last_access st \<and> unat d * 1000 < 2 ^ 32 \<longrightarrow>
            uint (mean_period_show HZ st) =
              mean_period_spec (uint (first_access st)) (uint (last_access st)) (uint HZ)
                (uint (nb_access st))))"
proof -
  let ?d = "last_access st - first_access st"
  have zero: "mean_period_show HZ st = 0" if "nb_access st = 0"
    using that by (simp only: mean_period_show_eq) simp
  have val: "unat (mean_period_show HZ st) = unat ?d * 1000 div unat HZ div unat (nb_access st)"
    if n: "nb_access st \<noteq> 0" and b: "unat ?d * 1000 < 2 ^ 32"
  proof -
    have "mean_period_show HZ st = ?d * 1000 div HZ div nb_access st"
      using n by (simp only: mean_period_show_eq if_False)
    then show ?thesis
      by (simp only: unat_scaled_div [OF b])
  qed
  have spec: "uint (mean_period_show HZ st) =
      mean_period_spec (uint (first_access st)) (uint (last_access st)) (uint HZ)
        (uint (nb_access st))"
    if le: "first_access st \<le> last_access st" and b: "unat ?d * 1000 < 2 ^ 32"
  proof (cases "nb_access st = 0")
    case True
    then show ?thesis
      by (simp add: zero [OF True] mean_period_spec_def)
  next
    case False
    then have nz: "unat (nb_access st) \<noteq> 0"
      by (simp add: unat_eq_0)
    have s: "mean_period_spec (uint (first_access st)) (uint (last_access st)) (uint HZ)
        (uint (nb_access st)) =
        int (unat ?d * 1000 div unat HZ div unat (nb_access st))"
      using mean_period_spec_step [OF le, of HZ] nz by (simp only: if_False)
    have "uint (mean_period_show HZ st) = int (unat (mean_period_show HZ st))"
      by (rule uint_nat)
    also have "\<dots> = int (unat ?d * 1000 div unat HZ div unat (nb_access st))"
      by (simp only: val [OF False b])
    finally show ?thesis
      by (simp only: s)
  qed
  show ?thesis
    unfolding Let_def
  proof (intro conjI impI)
    show "nb_access st = 0 \<Longrightarrow> mean_period_show HZ st = 0"
      by (rule zero)
    show "unat (mean_period_show HZ st) = unat ?d * 1000 div unat HZ div unat (nb_access st)"
      if "nb_access st \<noteq> 0 \<and> unat ?d * 1000 < 2 ^ 32"
      using that val by blast
    show "uint (mean_period_show HZ st) =
        mean_period_spec (uint (first_access st)) (uint (last_access st)) (uint HZ)
          (uint (nb_access st))"
      if "first_access st \<le> last_access st \<and> unat ?d * 1000 < 2 ^ 32"
      using that spec by blast
  qed
qed

lemma mean_period_show_example:
  "uint (mean_period_show 100 odo_three) = 3000 \<and> mean_period_spec 100 1000 100 3 = 3000
   \<and> mean_period_show 100 odo_example = 0"
  by (simp add: mean_period_show_def Let_def odo_three_def odo_example_def odo_alloc_def
      mean_period_spec_def tdiv_def)

text \<open>
  C5. \<^verbatim>\<open>mean_period_show\<close> should give
  \<open>(last_access - first_access) * 1000 / HZ / nb_access\<close>. It does not once the
  product passes \<open>2 ^ 32\<close>: \<open>diff * 1000\<close> (line 183) is computed in an
  \<^verbatim>\<open>unsigned long\<close>. On a new channel, two queries at the clock values 1 and 5000001
  (100 ticks per second) leave a span of 5000000 ticks over 2 accesses: the formula
  gives 25000000 ms, the code 3525163.
\<close>

theorem mean_period_show_overflows:
  "nb_access (snd (queries odo_example [(0, 0, 1), (0, 0, 5000001)])) = 2
   \<and> first_access (snd (queries odo_example [(0, 0, 1), (0, 0, 5000001)])) = 1
   \<and> last_access (snd (queries odo_example [(0, 0, 1), (0, 0, 5000001)])) = 5000001
   \<and> uint (mean_period_show 100 (snd (queries odo_example [(0, 0, 1), (0, 0, 5000001)])))
       = 3525163
   \<and> mean_period_spec 1 5000001 100 2 = 25000000"
  by (simp add: mean_period_show_def mean_period_spec_def tdiv_def Let_def split_def
      counter_show_def hw_present_def ioread32_def iowrite32_def odo_read_count_def
      gpt_latch_def odo_example_def odo_alloc_def reg_defs TSTAT_COMP_def)

lemma query_telemetry:
  "nb_access (snd (counter_show st j)) = nb_access st + 1"
  "last_access (snd (counter_show st j)) = j"
  "first_access (snd (counter_show st j)) = (if first_access st = 0 then j else first_access st)"
  by (simp_all add: counter_show_def Let_def ioread32_def iowrite32_def odo_read_count_def)

lemma hw_present_telemetry [simp]:
  "nb_access (hw_present s c st) = nb_access st"
  "last_access (hw_present s c st) = last_access st"
  "first_access (hw_present s c st) = first_access st"
  by (simp_all add: hw_present_def)

lemma queries_snd_Cons:
  "snd (queries st ((s, c, j) # rest)) =
     snd (queries (snd (counter_show (hw_present s c st) j)) rest)"
  by (simp add: split_def Let_def)

lemma queries_first_kept:
  "first_access st \<noteq> 0 \<Longrightarrow> first_access (snd (queries st obs)) = first_access st"
proof (induction obs arbitrary: st)
  case Nil
  then show ?case by simp
next
  case (Cons x obs)
  obtain s c j where x: "x = (s, c, j)"
    by (cases x)
  let ?st1 = "snd (counter_show (hw_present s c st) j)"
  have "first_access ?st1 = first_access st"
    using Cons.prems by (simp add: query_telemetry)
  with Cons.IH [of ?st1] Cons.prems show ?case
    by (simp only: x queries_snd_Cons) simp
qed

lemma queries_nb_access:
  "nb_access (snd (queries st obs)) = nb_access st + of_nat (length obs)"
proof (induction obs arbitrary: st)
  case Nil
  then show ?case by simp
next
  case (Cons x obs)
  obtain s c j where x: "x = (s, c, j)"
    by (cases x)
  show ?case
    by (simp only: x queries_snd_Cons Cons.IH) (simp add: query_telemetry)
qed

lemma queries_last_access:
  "obs \<noteq> [] \<Longrightarrow> last_access (snd (queries st obs)) = snd (snd (last obs))"
proof (induction obs arbitrary: st)
  case Nil
  then show ?case by simp
next
  case (Cons x obs)
  obtain s c j where x: "x = (s, c, j)"
    by (cases x)
  show ?case
  proof (cases "obs = []")
    case True
    then show ?thesis
      by (simp add: x split_def Let_def query_telemetry)
  next
    case False
    with Cons.IH [OF False] show ?thesis
      by (simp only: x queries_snd_Cons) simp
  qed
qed

text \<open>
  C6 (amended). In a run of queries that starts with \<open>first_access\<close> unset (0, as after
  creation or a reset), the first query sets \<open>first_access\<close> to the clock it reads and,
  provided that clock value is not 0, no later query of the run alters it. Every query
  adds 1 to \<open>nb_access\<close> and sets \<open>last_access\<close> to the clock it reads.
\<close>

theorem first_access_set_once:
  assumes "first_access st = 0" and "j \<noteq> 0"
  shows "(let st1 = snd (counter_show (hw_present s c st) j);
              st2 = snd (queries st ((s, c, j) # rest))
          in first_access st1 = j \<and> first_access st2 = j
             \<and> nb_access st1 = nb_access st + 1 \<and> last_access st1 = j
             \<and> nb_access st2 = nb_access st + of_nat (length ((s, c, j) # rest))
             \<and> last_access st2 = snd (snd (last ((s, c, j) # rest))))"
proof -
  let ?st1 = "snd (counter_show (hw_present s c st) j)"
  have f1: "first_access ?st1 = j"
    using assms(1) by (simp add: query_telemetry)
  then have "first_access (snd (queries ?st1 rest)) = j"
    using assms(2) queries_first_kept [of ?st1 rest] by simp
  then have f2: "first_access (snd (queries st ((s, c, j) # rest))) = j"
    by (simp only: queries_snd_Cons)
  show ?thesis
    unfolding Let_def
    using f1 f2 queries_nb_access [of st "(s, c, j) # rest"]
      queries_last_access [of "(s, c, j) # rest" st]
    by (simp add: query_telemetry)
qed

theorem first_access_set_once_witness:
  "first_access odo_example = 0 \<and> (7 :: 32 word) \<noteq> 0
   \<and> first_access (snd (counter_show (hw_present 0 4 odo_example) 7)) = 7
   \<and> first_access (snd (queries odo_example [(0, 4, 7), (0, 9, 8), (1, 2, 12)])) = 7
   \<and> nb_access (snd (queries odo_example [(0, 4, 7), (0, 9, 8), (1, 2, 12)])) = 3
   \<and> last_access (snd (queries odo_example [(0, 4, 7), (0, 9, 8), (1, 2, 12)])) = 12"
  using first_access_set_once [of odo_example 7 0 4 "[(0, 9, 8), (1, 2, 12)]"]
  by (simp add: Let_def odo_example_def odo_alloc_def)

text \<open>
  As stated the claim fails when the first query reads the clock value 0, the value that
  marks \<open>first_access\<close> as unset: the second query then sets it again.
\<close>

theorem first_access_set_once_counterexample:
  "first_access odo_example = 0
   \<and> first_access (snd (queries odo_example [(0, 0, 0)])) = 0
   \<and> first_access (snd (queries odo_example [(0, 0, 0), (0, 0, 5)])) = 5"
  by (simp add: odo_example_def odo_alloc_def
      counter_show_def hw_present_def Let_def ioread32_def iowrite32_def
      odo_read_count_def gpt_latch_def reg_defs TSTAT_COMP_def)

section \<open>The reset coordinator\<close>

lemma odo_reset_count_eq:
  "odo_reset_count st =
     (0, st\<lparr>vmem := (vmem st)(TCTL_REG := vmem st TCTL_REG OR 1),
            counter_ms := 0, counter_ls := 0,
            iolog := iolog st @
              [IoRead TCTL_REG (vmem st TCTL_REG),
               IoWrite TCTL_REG (vmem st TCTL_REG AND NOT 1),
               Msleep 10,
               IoRead TCTL_REG (vmem st TCTL_REG AND NOT 1),
               IoWrite TCTL_REG (vmem st TCTL_REG OR 1)]\<rparr>)"
proof -
  have a: "set_field_spec r TCTL_TEN 0 = r AND NOT 1" for r
    by (simp add: set_field_spec_def TCTL_TEN_def)
  have b: "set_field_spec (r AND - 2) TCTL_TEN 1 = r OR 1" for r
    by (rule bit_word_eqI) (auto simp: set_field_spec_def TCTL_TEN_def bit_simps)
  show ?thesis
    by (simp add: odo_reset_count_def Let_def odo_set_gpt_field_eq msleep_def gpt_latch_def
        reg_defs a b)
qed

text \<open>
  What a write to the reset attribute does, for any parser, by the code's own test
  \<^verbatim>\<open>(reset == 1) || (reset == '1')\<close>.
\<close>

lemma reset_store_cases:
  "(case kstrtoint buf of (ret, reset) \<Rightarrow>
      if ret < 0 then reset_store kstrtoint st buf count = (ret, st)
      else if reset = 1 \<or> reset = of_char (CHR ''1'')
      then (let (r, st') = reset_store kstrtoint st buf count
            in r = int count \<and> counter_ms st' = 0 \<and> nb_access st' = 0
               \<and> first_access st' = 0 \<and> last_access st' = 0
               \<and> bit (vmem st' TCTL_REG) 0)
      else reset_store kstrtoint st buf count = (int count, st))"
  by (simp add: reset_store_def Let_def odo_reset_count_eq bit_simps split: prod.splits)

text \<open>
  C3. A text that parses as 1 should reset, one that parses as any other integer should
  change nothing, one that does not parse should be refused. The text \<open>49\<close> parses as
  an integer other than 1, and the write resets the channel: line 199 compares the
  parsed integer with the character \<open>'1'\<close>, whose code is 49. The text \<open>48\<close> changes
  nothing.
\<close>

theorem reset_store_resets_on_49:
  "kstrtoint_10 ''49'' = (0, 49)
   \<and> reset_store kstrtoint_10 odo_busy ''49'' 2 =
       (2, odo_busy\<lparr>vmem := (vmem odo_busy)(TCTL_REG := 0x1F),
                    counter_ms := 0, counter_ls := 0, nb_access := 0,
                    first_access := 0, last_access := 0,
                    iolog := [IoRead TCTL_REG 0x1F, IoWrite TCTL_REG 0x1E, Msleep 10,
                              IoRead TCTL_REG 0x1E, IoWrite TCTL_REG 0x1F]\<rparr>)
   \<and> reset_store kstrtoint_10 odo_busy ''49'' 2 \<noteq> (2, odo_busy)
   \<and> reset_store kstrtoint_10 odo_busy ''48'' 2 = (2, odo_busy)"
  by (simp add: reset_store_def odo_reset_count_eq kstrtoint_10_def is_digit_def
      digits_value_def Let_def odo_busy_def odo_example_def odo_alloc_def reg_defs)

lemma reset_store_examples:
  "reset_store kstrtoint_10 odo_busy ''abc'' 3 = (- 22, odo_busy)
   \<and> reset_store kstrtoint_10 odo_busy ''0'' 1 = (1, odo_busy)
   \<and> fst (reset_store kstrtoint_10 odo_busy ''1'' 1) = 1
   \<and> counter_ms (snd (reset_store kstrtoint_10 odo_busy ''1'' 1)) = 0
   \<and> nb_access (snd (reset_store kstrtoint_10 odo_busy ''1'' 1)) = 0"
  by (simp add: reset_store_def odo_reset_count_eq kstrtoint_10_def is_digit_def
      digits_value_def Let_def EINVAL_def)

text \<open>
  C4. After a reset, the high word, the access count and both timestamps are zero, the
  enable bit of the control register is set, every other bit of the control register is
  as before and so is every other register (prescaler, compare value). The accesses are:
  disable, the settle delay, enable.
\<close>

theorem reset_keeps_configuration:
  assumes "kstrtoint buf = (ret, reset)" and "\<not> ret < 0"
    and "reset = 1 \<or> reset = of_char (CHR ''1'')"
  shows "(let st' = snd (reset_store kstrtoint st buf count); c = vmem st TCTL_REG
          in counter_ms st' = 0 \<and> nb_access st' = 0
             \<and> first_access st' = 0 \<and> last_access st' = 0
             \<and> bit (vmem st' TCTL_REG) 0
             \<and> (\<forall>n. n \<noteq> 0 \<longrightarrow> bit (vmem st' TCTL_REG) n = bit c n)
             \<and> (\<forall>reg. reg \<noteq> TCTL_REG \<longrightarrow> vmem st' reg = vmem st reg)
             \<and> iolog st' = iolog st @
                  [IoRead TCTL_REG c, IoWrite TCTL_REG (c AND NOT 1), Msleep 10,
                   IoRead TCTL_REG (c AND NOT 1), IoWrite TCTL_REG (c OR 1)])"
  using assms
  by (auto simp: reset_store_def Let_def odo_reset_count_eq bit_simps)

theorem reset_keeps_configuration_witness:
  "kstrtoint_10 [CHR ''1'', CHR 0x0A] = (0, 1) \<and> \<not> (0 :: int) < 0
   \<and> counter_ms (snd (reset_store kstrtoint_10 odo_busy [CHR ''1'', CHR 0x0A] 2)) = 0
   \<and> nb_access (snd (reset_store kstrtoint_10 odo_busy [CHR ''1'', CHR 0x0A] 2)) = 0
   \<and> vmem (snd (reset_store kstrtoint_10 odo_busy [CHR ''1'', CHR 0x0A] 2)) TCTL_REG = 0x1F
   \<and> iolog (snd (reset_store kstrtoint_10 odo_busy [CHR ''1'', CHR 0x0A] 2)) =
        [IoRead TCTL_REG 0x1F, IoWrite TCTL_REG 0x1E, Msleep 10,
         IoRead TCTL_REG 0x1E, IoWrite TCTL_REG 0x1F]"
proof -
  have k: "kstrtoint_10 [CHR ''1'', CHR 0x0A] = (0, 1)"
    by (simp add: kstrtoint_10_def is_digit_def digits_value_def Let_def)
  show ?thesis
    using reset_keeps_configuration [where kstrtoint = kstrtoint_10
        and buf = "[CHR ''1'', CHR 0x0A]" and ret = 0 and reset = 1 and st = odo_busy
        and count = 2] k
    by (simp add: Let_def odo_busy_def odo_example_def odo_alloc_def reg_defs
        reset_store_def odo_reset_count_eq)
qed


section \<open>Module initialisation\<close>

lemma offset_in_bounds:
  "2 \<le> gpt_id \<Longrightarrow> gpt_id \<le> 6 \<Longrightarrow> array_get MEM_GPT_OFFSET (gpt_id - 1) \<noteq> None"
  by (simp add: array_get_def MEM_GPT_OFFSET_def)

lemma gpio_in_bounds_iff:
  "array_get GPT_TIN gpt_id \<noteq> None \<longleftrightarrow> 0 \<le> gpt_id \<and> gpt_id \<le> 5"
  by (auto simp: array_get_def GPT_TIN_def)

text \<open>
  C10. The range check of \<^verbatim>\<open>odo_init\<close> accepts \<open>gpt_id = 6\<close>. The read
  \<open>offset[gpt_id - 1]\<close> is then inside \<^verbatim>\<open>MEM_GPT_OFFSET\<close>, but \<open>gpio[gpt_id]\<close> is
  the seventh element of the six-element \<^verbatim>\<open>GPT_TIN\<close>: the initialisation reads outside
  the array.
\<close>

theorem odo_init_gpt_id_6_out_of_bounds:
  "2 \<le> (6 :: int) \<and> (6 :: int) \<le> 6
   \<and> array_get MEM_GPT_OFFSET (6 - 1) = Some 0x1F000
   \<and> array_get GPT_TIN 6 = None
   \<and> odo_init boot_env 6 = OutOfBounds ''gpio'' 6"
  by (simp add: odo_init_def boot_env_def array_get_def GPT_TIN_def MEM_GPT_OFFSET_def)

lemma odo_init_5: "\<exists>st. odo_init boot_env 5 = Loaded st 78"
  by (simp add: odo_init_def boot_env_def array_get_def GPT_TIN_def MEM_GPT_OFFSET_def Let_def)

end
